theory Spec2Isabelle
  imports Main
begin

section \<open>Go values used by the program\<close>

text \<open>
  A Go \<^verbatim>\<open>string\<close> is a sequence of bytes, here a \<^typ>\<open>string\<close> (a list of 8-bit
  characters). A \<^verbatim>\<open>rune\<close> is a Unicode code point.
\<close>

type_synonym rune = nat

text \<open>
  Every \<^verbatim>\<open>panic\<close> of \<^verbatim>\<open>main.go\<close>, and the two run-time panics its expressions can raise
  (an index out of range in \<^verbatim>\<open>[]rune(s)[i]\<close>, a nil \<^verbatim>\<open>*ast.FieldList\<close> dereferenced by
  \<^verbatim>\<open>fields.List\<close>). The program has no \<^verbatim>\<open>recover\<close>: a panic ends the run. The payload of
  the two receiver panics is the declaration's name, which their message prints.
\<close>

datatype error =
    StrangeReceiver string
  | StrangeReceiverField string
  | UnsupportedChanType
  | UnsupportedType
  | IndexOutOfRange
  | NilDereference

subsection \<open>The conversion \<^verbatim>\<open>[]rune(s)\<close>\<close>

text \<open>
  Go decodes the string as UTF-8, one code point after the other; a byte that starts no
  valid encoding yields the replacement character \<^verbatim>\<open>U+FFFD\<close> and is one byte wide.
  \<open>decodeRune\<close> follows \<^verbatim>\<open>utf8.DecodeRuneInString\<close> of the Go library on a non-empty
  string, given as its first byte and the bytes after it: it returns the code point and
  its width in bytes.
\<close>

definition RuneError :: rune where
  "RuneError = 0xFFFD"

definition cont :: "nat \<Rightarrow> bool" where
  "cont b = (0x80 \<le> b \<and> b \<le> 0xBF)"

definition decodeRune :: "nat \<Rightarrow> nat list \<Rightarrow> rune \<times> nat" where
  "decodeRune b0 bs =
     (if b0 < 0x80 then (b0, 1)
      else if b0 < 0xC2 \<or> 0xF4 < b0 then (RuneError, 1)
      else
        (let sz = (if b0 < 0xE0 then 2 else if b0 < 0xF0 then 3 else 4 :: nat);
             lo = (if b0 = 0xE0 then 0xA0 else if b0 = 0xF0 then 0x90 else 0x80 :: nat);
             hi = (if b0 = 0xED then 0x9F else if b0 = 0xF4 then 0x8F else 0xBF :: nat)
         in if length bs < sz - 1 then (RuneError, 1)
            else
              (let b1 = bs ! 0 in
               if b1 < lo \<or> hi < b1 then (RuneError, 1)
               else if sz = 2 then ((b0 mod 0x20) * 0x40 + b1 mod 0x40, 2)
               else
                 (let b2 = bs ! 1 in
                  if \<not> cont b2 then (RuneError, 1)
                  else if sz = 3 then
                    ((b0 mod 0x10) * 0x1000 + (b1 mod 0x40) * 0x40 + b2 mod 0x40, 3)
                  else
                    (let b3 = bs ! 2 in
                     if \<not> cont b3 then (RuneError, 1)
                     else
                       ((b0 mod 0x08) * 0x40000 + (b1 mod 0x40) * 0x1000
                          + (b2 mod 0x40) * 0x40 + b3 mod 0x40, 4))))))"

fun decodeAll :: "nat list \<Rightarrow> rune list" where
  "decodeAll [] = []"
| "decodeAll (b # bs) =
     (case decodeRune b bs of (r, width) \<Rightarrow> r # decodeAll (drop (width - 1) bs))"

definition runes :: "string \<Rightarrow> rune list" where
  "runes s = decodeAll (map of_char s)"

text \<open>\<^verbatim>\<open>rs[i]\<close> on a slice: a run-time panic when the index is out of range.\<close>

definition index :: "'a list \<Rightarrow> nat \<Rightarrow> error + 'a" where
  "index xs i = (if i < length xs then Inr (xs ! i) else Inl IndexOutOfRange)"

text \<open>\<^verbatim>\<open>strings.HasPrefix\<close>: \<^verbatim>\<open>len(s) >= len(prefix) && s[:len(prefix)] == prefix\<close>.\<close>

definition HasPrefix :: "string \<Rightarrow> string \<Rightarrow> bool" where
  "HasPrefix s p = (length p \<le> length s \<and> take (length p) s = p)"

text \<open>
  \<^verbatim>\<open>unicode.IsUpper\<close> belongs to the Go library; the functions that call it take it as the
  parameter \<open>IsUpper\<close>. On the Latin-1 code points the library decides by a fixed
  table, whose upper-case letters are \<^verbatim>\<open>A-Z\<close>, \<^verbatim>\<open>U+00C0-U+00D6\<close> and \<^verbatim>\<open>U+00D8-U+00DE\<close>;
  \<open>IsUpperLatin1\<close> is that table, used where an example needs a concrete predicate.
\<close>

definition IsUpperLatin1 :: "rune \<Rightarrow> bool" where
  "IsUpperLatin1 r =
     ((0x41 \<le> r \<and> r \<le> 0x5A) \<or> (0xC0 \<le> r \<and> r \<le> 0xD6) \<or> (0xD8 \<le> r \<and> r \<le> 0xDE))"

section \<open>The syntax tree of \<^verbatim>\<open>go/ast\<close>\<close>

text \<open>
  Only what \<^verbatim>\<open>main.go\<close> reads. An \<^verbatim>\<open>ast.Expr\<close> is an interface value: \<open>NilExpr\<close> is the
  nil interface (an absent array length, for one), and each node type the type switch of
  \<^verbatim>\<open>formatType\<close> names is a constructor. All other node types that implement \<^verbatim>\<open>ast.Expr\<close>
  reach the \<^verbatim>\<open>default\<close> branch, which does not look into them: they are \<open>OtherExpr\<close>
  with the node's kind. A \<^verbatim>\<open>*ast.FieldList\<close> may be nil, so it is an option of the list
  in its \<^verbatim>\<open>List\<close>; an \<^verbatim>\<open>*ast.Ident\<close> is its \<^verbatim>\<open>Name\<close>.
\<close>

datatype ChanDir = SEND | RECV | SEND_RECV

datatype node_kind =
    BadExpr | FuncLit | CompositeLit | ParenExpr | IndexExpr | IndexListExpr | SliceExpr
  | TypeAssertExpr | CallExpr | UnaryExpr | BinaryExpr | KeyValueExpr | StructType
  | InterfaceType

datatype expr =
    NilExpr
  | Ident string
  | SelectorExpr expr string
  | StarExpr expr
  | ArrayType expr expr
  | Ellipsis expr
  | FuncType "field list option" "field list option"
  | MapType expr expr
  | ChanType ChanDir expr
  | BasicLit string
  | OtherExpr node_kind
and field = Field (Names: "string list") (FieldType: expr)

type_synonym FieldList = "field list option"

record FuncTypeNode =
  Params :: FieldList
  Results :: FieldList

record FuncDecl =
  Recv :: FieldList
  Name :: string
  Type :: FuncTypeNode

text \<open>A top-level declaration: \<^verbatim>\<open>printFuncsInFile\<close> looks at \<^verbatim>\<open>*ast.FuncDecl\<close> only.\<close>

datatype decl = FuncDeclNode FuncDecl | GenDecl | BadDecl

section \<open>The signature renderer\<close>

text \<open>
  The inner loop of \<^verbatim>\<open>formatFields\<close> over \<^verbatim>\<open>field.Names\<close>, with the string \<open>s\<close> it
  appends to. \<^verbatim>\<open>j != len(field.Names)-1\<close> holds exactly when names remain after the
  current one.
\<close>

fun formatFields_names :: "string list \<Rightarrow> string \<Rightarrow> string" where
  "formatFields_names [] s = s"
| "formatFields_names (name # rest) s =
     (let s = s @ name;
          s = (if rest \<noteq> [] then s @ '','' else s);
          s = s @ '' ''
      in formatFields_names rest s)"

text \<open>
  \<^verbatim>\<open>formatType\<close>, \<^verbatim>\<open>formatFields\<close>, \<^verbatim>\<open>formatFuncParams\<close> and \<^verbatim>\<open>formatFuncResults\<close> call each
  other. \<open>formatFields_loop\<close> is the outer loop of \<^verbatim>\<open>formatFields\<close> with its accumulator;
  \<^verbatim>\<open>i != len(fields.List)-1\<close> holds exactly when fields remain after the current one.
  A result is \<open>Inr\<close> the returned string or \<open>Inl\<close> the panic.
\<close>

fun formatType :: "expr \<Rightarrow> error + string"
  and formatFields_loop :: "field list \<Rightarrow> string \<Rightarrow> error + string"
  and formatFields :: "FieldList \<Rightarrow> error + string"
  and formatFuncParams :: "FieldList \<Rightarrow> error + string"
  and formatFuncResults :: "FieldList \<Rightarrow> error + string"
where
  "formatType NilExpr = Inr ''''"
| "formatType (Ident name) = Inr name"
| "formatType (SelectorExpr x sel) =
     (case formatType x of Inl e \<Rightarrow> Inl e | Inr a \<Rightarrow> Inr (a @ ''.'' @ sel))"
| "formatType (StarExpr x) =
     (case formatType x of Inl e \<Rightarrow> Inl e | Inr a \<Rightarrow> Inr (''*'' @ a))"
| "formatType (ArrayType len elt) =
     (case formatType len of Inl e \<Rightarrow> Inl e
      | Inr a \<Rightarrow>
          (case formatType elt of Inl e \<Rightarrow> Inl e
           | Inr b \<Rightarrow> Inr (''['' @ a @ '']'' @ b)))"
| "formatType (Ellipsis elt) = formatType elt"
| "formatType (FuncType params results) =
     (case formatFuncParams params of Inl e \<Rightarrow> Inl e
      | Inr a \<Rightarrow>
          (case formatFuncResults results of Inl e \<Rightarrow> Inl e
           | Inr b \<Rightarrow> Inr (''func('' @ a @ '')'' @ b)))"
| "formatType (MapType key val) =
     (case formatType key of Inl e \<Rightarrow> Inl e
      | Inr a \<Rightarrow>
          (case formatType val of Inl e \<Rightarrow> Inl e
           | Inr b \<Rightarrow> Inr (''map['' @ a @ '']'' @ b)))"
| "formatType (ChanType dir val) = Inl UnsupportedChanType"
| "formatType (BasicLit v) = Inr v"
| "formatType (OtherExpr k) = Inl UnsupportedType"
| "formatFields_loop [] s = Inr s"
| "formatFields_loop (Field names ty # rest) s =
     (let s = formatFields_names names s in
      case formatType ty of Inl e \<Rightarrow> Inl e
      | Inr t \<Rightarrow>
          (let s = s @ t;
               s = (if rest \<noteq> [] then s @ '', '' else s)
           in formatFields_loop rest s))"
| "formatFields None = Inl NilDereference"
| "formatFields (Some fl) = formatFields_loop fl ''''"
| "formatFuncParams fl = formatFields fl"
| "formatFuncResults None = Inr ''''"
| "formatFuncResults (Some fl) =
     (let s = '''';
          s = s @ '' '';
          s = (if 1 < length fl then s @ ''('' else s)
      in case formatFields (Some fl) of Inl e \<Rightarrow> Inl e
         | Inr r \<Rightarrow>
             (let s = s @ r;
                  s = (if 1 < length fl then s @ '')'' else s)
              in Inr s))"

text \<open>
  Lines 179 to 181 of \<^verbatim>\<open>formatFuncDecl\<close>: the name, the parameters and the results are
  appended to the string \<open>s\<close> built so far.
\<close>

definition formatFuncDecl_tail :: "FuncDecl \<Rightarrow> string \<Rightarrow> error + string" where
  "formatFuncDecl_tail decl s =
     (case formatFuncParams (Params (Type decl)) of Inl e \<Rightarrow> Inl e
      | Inr p \<Rightarrow>
          (let s = s @ Name decl @ ''('' @ p @ '')'' in
           case formatFuncResults (Results (Type decl)) of Inl e \<Rightarrow> Inl e
           | Inr r \<Rightarrow> Inr (s @ r)))"

definition formatFuncDecl :: "FuncDecl \<Rightarrow> error + string" where
  "formatFuncDecl decl =
     (let s = ''func '' in
      case Recv decl of
        None \<Rightarrow> formatFuncDecl_tail decl s
      | Some recv \<Rightarrow>
          if length recv \<noteq> 1 then Inl (StrangeReceiver (Name decl))
          else
            (let field = recv ! 0 in
             if length (Names field) = 0 then Inr ''''
             else if length (Names field) \<noteq> 1 then Inl (StrangeReceiverField (Name decl))
             else
               (case formatType (FieldType field) of Inl e \<Rightarrow> Inl e
                | Inr t \<Rightarrow>
                    formatFuncDecl_tail decl
                      (s @ ''('' @ Names field ! 0 @ '' '' @ t @ '') ''))))"

section \<open>The visibility classifier\<close>

text \<open>
  The closure \<^verbatim>\<open>isUpper0\<close> of \<^verbatim>\<open>exported\<close>. \<open>IsUpper\<close> stands for \<^verbatim>\<open>unicode.IsUpper\<close>.
\<close>

definition isUpper0 :: "(rune \<Rightarrow> bool) \<Rightarrow> string \<Rightarrow> error + bool" where
  "isUpper0 IsUpper s =
     (if HasPrefix s ''*'' then
        (case index (runes s) 1 of Inl e \<Rightarrow> Inl e | Inr r \<Rightarrow> Inr (IsUpper r))
      else
        (case index (runes s) 0 of Inl e \<Rightarrow> Inl e | Inr r \<Rightarrow> Inr (IsUpper r)))"

text \<open>
  \<^verbatim>\<open>&&\<close> evaluates its right operand only when the left one is true.
\<close>

definition exported :: "(rune \<Rightarrow> bool) \<Rightarrow> FuncDecl \<Rightarrow> error + bool" where
  "exported IsUpper decl =
     (case Recv decl of
        Some recv \<Rightarrow>
          if length recv \<noteq> 1 then Inl (StrangeReceiver (Name decl))
          else
            (let field = recv ! 0 in
             case formatType (FieldType field) of Inl e \<Rightarrow> Inl e
             | Inr t \<Rightarrow>
                 (case isUpper0 IsUpper t of Inl e \<Rightarrow> Inl e
                  | Inr a \<Rightarrow> if a then isUpper0 IsUpper (Name decl) else Inr False))
      | None \<Rightarrow> isUpper0 IsUpper (Name decl))"

section \<open>The listing of a file\<close>

text \<open>
  \<^verbatim>\<open>printFuncsInFile\<close> writes lines to the standard output: the state is the list of the
  lines written so far, one per \<^verbatim>\<open>fmt.Println\<close>. The result is the output after the call
  and the panic that ended the run, if any (the lines written before a panic stay
  written). The function's own \<^verbatim>\<open>error\<close> result is always nil.
\<close>

record File =
  Decls :: "decl list"

fun printFuncsInFile_loop ::
  "(rune \<Rightarrow> bool) \<Rightarrow> decl list \<Rightarrow> bool \<Rightarrow> string list \<Rightarrow> string list \<times> error option"
where
  "printFuncsInFile_loop IsUpper [] verbose out = (out, None)"
| "printFuncsInFile_loop IsUpper (FuncDeclNode decl # rest) verbose out =
     (case exported IsUpper decl of
        Inl e \<Rightarrow> (out, Some e)
      | Inr ex \<Rightarrow>
          if ex then
            (if verbose then
               (case formatFuncDecl decl of
                  Inl e \<Rightarrow> (out, Some e)
                | Inr line \<Rightarrow> printFuncsInFile_loop IsUpper rest verbose (out @ [line]))
             else printFuncsInFile_loop IsUpper rest verbose (out @ [Name decl]))
          else printFuncsInFile_loop IsUpper rest verbose out)"
| "printFuncsInFile_loop IsUpper (_ # rest) verbose out =
     printFuncsInFile_loop IsUpper rest verbose out"

definition printFuncsInFile ::
  "(rune \<Rightarrow> bool) \<Rightarrow> File \<Rightarrow> bool \<Rightarrow> string list \<Rightarrow> string list \<times> error option"
where
  "printFuncsInFile IsUpper file verbose out =
     printFuncsInFile_loop IsUpper (Decls file) verbose out"

section \<open>Reference definitions\<close>

text \<open>
  The words of the specification, as definitions of their own, against which the
  functions above are compared. \<open>spec_join\<close> joins strings with a separator.
\<close>

fun spec_join :: "string \<Rightarrow> string list \<Rightarrow> string" where
  "spec_join sep [] = ''''"
| "spec_join sep [x] = x"
| "spec_join sep (x # y # ys) = x @ sep @ spec_join sep (y # ys)"

text \<open>
  One field: its names joined by a comma and a space, then a space and the rendered type
  \<open>t\<close>; a field without names is its type alone.
\<close>

definition spec_field :: "string list \<Rightarrow> string \<Rightarrow> string" where
  "spec_field names t = (if names = [] then t else spec_join '', '' names @ '' '' @ t)"

text \<open>A field list, given as the names and the rendered type of each field, in order.\<close>

definition spec_fields :: "(string list \<times> string) list \<Rightarrow> string" where
  "spec_fields fs = spec_join '', '' (map (\<lambda>(names, t). spec_field names t) fs)"

text \<open>Stripping one leading pointer marker, if present.\<close>

definition spec_stripStar :: "string \<Rightarrow> string" where
  "spec_stripStar s = (case s of [] \<Rightarrow> [] | c # rest \<Rightarrow> if c = CHR ''*'' then rest else s)"

text \<open>The first rune of \<open>s\<close> is upper case (a string without runes has none).\<close>

definition spec_firstUpper :: "(rune \<Rightarrow> bool) \<Rightarrow> string \<Rightarrow> bool" where
  "spec_firstUpper IsUpper s = (case runes s of [] \<Rightarrow> False | r # _ \<Rightarrow> IsUpper r)"

text \<open>The function declarations of a declaration list, in its order.\<close>

fun funcDecls :: "decl list \<Rightarrow> FuncDecl list" where
  "funcDecls [] = []"
| "funcDecls (FuncDeclNode d # rest) = d # funcDecls rest"
| "funcDecls (_ # rest) = funcDecls rest"

text \<open>The exported function declarations of a file: those for which \<open>exported\<close> returns true.\<close>

definition spec_exportedDecls :: "(rune \<Rightarrow> bool) \<Rightarrow> File \<Rightarrow> FuncDecl list" where
  "spec_exportedDecls IsUpper file =
     filter (\<lambda>d. exported IsUpper d = Inr True) (funcDecls (Decls file))"

text \<open>
  The lines \<open>out\<close> are those of the declarations \<open>ds\<close>, one each and in order: the
  rendered signatures in verbose mode, the bare names otherwise.
\<close>

definition spec_lines :: "bool \<Rightarrow> FuncDecl list \<Rightarrow> string list \<Rightarrow> bool" where
  "spec_lines verbose ds out =
     (if verbose then map formatFuncDecl ds = map Inr out else out = map Name ds)"

text \<open>
  The expression holds, at any depth, a channel type or a node that is none of the
  supported shapes; likewise for the types of a field list.
\<close>

fun hasUnsupported :: "expr \<Rightarrow> bool"
  and hasUnsupported_fields :: "field list \<Rightarrow> bool"
  and hasUnsupported_list :: "FieldList \<Rightarrow> bool"
where
  "hasUnsupported NilExpr = False"
| "hasUnsupported (Ident name) = False"
| "hasUnsupported (SelectorExpr x sel) = hasUnsupported x"
| "hasUnsupported (StarExpr x) = hasUnsupported x"
| "hasUnsupported (ArrayType len elt) = (hasUnsupported len \<or> hasUnsupported elt)"
| "hasUnsupported (Ellipsis elt) = hasUnsupported elt"
| "hasUnsupported (FuncType params results) =
     (hasUnsupported_list params \<or> hasUnsupported_list results)"
| "hasUnsupported (MapType key val) = (hasUnsupported key \<or> hasUnsupported val)"
| "hasUnsupported (ChanType dir val) = True"
| "hasUnsupported (BasicLit v) = False"
| "hasUnsupported (OtherExpr k) = True"
| "hasUnsupported_fields [] = False"
| "hasUnsupported_fields (Field names ty # rest) =
     (hasUnsupported ty \<or> hasUnsupported_fields rest)"
| "hasUnsupported_list None = False"
| "hasUnsupported_list (Some fl) = hasUnsupported_fields fl"

text \<open>
  The rendering of the declaration comes to such a type: in its parameters or results
  or, for a method, in the type of its receiver. A method is rendered only when it has
  one receiver field with one name.
\<close>

definition spec_rendersUnsupported :: "FuncDecl \<Rightarrow> bool" where
  "spec_rendersUnsupported d =
     (case Recv d of
        None \<Rightarrow>
          hasUnsupported_list (Params (Type d)) \<or> hasUnsupported_list (Results (Type d))
      | Some recv \<Rightarrow>
          length recv = 1 \<and> length (Names (recv ! 0)) = 1
          \<and> (hasUnsupported (FieldType (recv ! 0))
               \<or> hasUnsupported_list (Params (Type d))
               \<or> hasUnsupported_list (Results (Type d))))"

section \<open>Example declarations\<close>

text \<open>
  \<^verbatim>\<open>func Join(a []string, sep string) string\<close>,
  \<^verbatim>\<open>func split(s string) []string\<close>,
  \<^verbatim>\<open>func (r *Reader) Read(p []byte) (n int, err error)\<close>,
  \<^verbatim>\<open>func (T) Foo()\<close> (a method whose receiver has no name),
  \<^verbatim>\<open>func F() (n, m int)\<close>, and a method \<open>M\<close> with two receiver fields, as the parser
  builds them.
\<close>

definition ex_Join :: FuncDecl where
  "ex_Join =
     \<lparr>Recv = None, Name = ''Join'',
      Type = \<lparr>Params = Some [Field [''a''] (ArrayType NilExpr (Ident ''string'')),
                             Field [''sep''] (Ident ''string'')],
               Results = Some [Field [] (Ident ''string'')]\<rparr>\<rparr>"

definition ex_split :: FuncDecl where
  "ex_split =
     \<lparr>Recv = None, Name = ''split'',
      Type = \<lparr>Params = Some [Field [''s''] (Ident ''string'')],
               Results = Some [Field [] (ArrayType NilExpr (Ident ''string''))]\<rparr>\<rparr>"

definition ex_Read :: FuncDecl where
  "ex_Read =
     \<lparr>Recv = Some [Field [''r''] (StarExpr (Ident ''Reader''))], Name = ''Read'',
      Type = \<lparr>Params = Some [Field [''p''] (ArrayType NilExpr (Ident ''byte''))],
               Results = Some [Field [''n''] (Ident ''int''),
                               Field [''err''] (Ident ''error'')]\<rparr>\<rparr>"

definition ex_Foo :: FuncDecl where
  "ex_Foo =
     \<lparr>Recv = Some [Field [] (Ident ''T'')], Name = ''Foo'',
      Type = \<lparr>Params = Some [], Results = None\<rparr>\<rparr>"

definition ex_F :: FuncDecl where
  "ex_F =
     \<lparr>Recv = None, Name = ''F'',
      Type = \<lparr>Params = Some [], Results = Some [Field [''n'', ''m''] (Ident ''int'')]\<rparr>\<rparr>"

definition ex_M :: FuncDecl where
  "ex_M =
     \<lparr>Recv = Some [Field [''a''] (Ident ''T''), Field [''b''] (Ident ''T'')], Name = ''M'',
      Type = \<lparr>Params = Some [], Results = None\<rparr>\<rparr>"

text \<open>A method with the receiver type \<open>recv\<close> and the name \<open>name\<close>.\<close>

definition ex_method :: "expr \<Rightarrow> string \<Rightarrow> FuncDecl" where
  "ex_method recv name =
     \<lparr>Recv = Some [Field [''x''] recv], Name = name,
      Type = \<lparr>Params = Some [], Results = None\<rparr>\<rparr>"

text \<open>\<^verbatim>\<open>func Send(cs []chan int, m map[string]<-chan int)\<close>.\<close>

definition ex_Send :: FuncDecl where
  "ex_Send =
     \<lparr>Recv = None, Name = ''Send'',
      Type = \<lparr>Params = Some [Field [''cs'']
                               (ArrayType NilExpr (ChanType SEND_RECV (Ident ''int''))),
                             Field [''m'']
                               (MapType (Ident ''string'') (ChanType RECV (Ident ''int'')))],
               Results = None\<rparr>\<rparr>"

text \<open>A file with a duplicate and a declaration that is no function.\<close>

definition ex_file :: File where
  "ex_file =
     \<lparr>Decls = [FuncDeclNode ex_Join, GenDecl, FuncDeclNode ex_split, FuncDeclNode ex_Read,
                FuncDeclNode ex_Join]\<rparr>"

section \<open>Strings and runes\<close>

lemma decodeRune_ascii: "b < 0x80 \<Longrightarrow> decodeRune b bs = (b, 1)"
  by (simp add: decodeRune_def)

lemma decodeRune_two:
  "0xC2 \<le> b0 \<Longrightarrow> b0 < 0xE0 \<Longrightarrow> cont b1 \<Longrightarrow>
   decodeRune b0 (b1 # bs) = ((b0 mod 0x20) * 0x40 + b1 mod 0x40, 2)"
  by (simp add: decodeRune_def cont_def)

lemma runes_Nil: "runes [] = []"
  by (simp add: runes_def)

lemma runes_ascii: "(of_char c :: nat) < 0x80 \<Longrightarrow> runes (c # s) = of_char c # runes s"
  by (simp add: runes_def decodeRune_ascii)

lemma runes_two:
  "0xC2 \<le> (of_char c0 :: nat) \<Longrightarrow> (of_char c0 :: nat) < 0xE0 \<Longrightarrow> cont (of_char c1) \<Longrightarrow>
   runes (c0 # c1 # s) = ((of_char c0 mod 0x20) * 0x40 + of_char c1 mod 0x40) # runes s"
  by (simp add: runes_def decodeRune_two)

text \<open>A string that is not empty has a first rune.\<close>

lemma runes_Cons: "\<exists>r rs. runes (c # s) = r # rs"
  by (simp add: runes_def split: prod.split)

lemma runes_star: "runes (CHR ''*'' # s) = 42 # runes s"
  by (simp add: runes_ascii)

lemma HasPrefix_star: "HasPrefix s ''*'' = (\<exists>rest. s = CHR ''*'' # rest)"
  by (cases s) (auto simp: HasPrefix_def)

text \<open>The facts that evaluate \<open>exported\<close> on a name of ASCII letters.\<close>

lemmas eval_exported =
  exported_def isUpper0_def HasPrefix_def index_def runes_ascii runes_Nil IsUpperLatin1_def

lemmas eval_formatFuncDecl = formatFuncDecl_def formatFuncDecl_tail_def

lemmas ex_defs = ex_Join_def ex_split_def ex_Read_def ex_Foo_def ex_F_def ex_M_def ex_method_def

section \<open>Rendering of type expressions\<close>

text \<open>
  C3: the renderer composes over the supported shapes of a type expression. An
  identifier and a literal render as their text, an absent expression as the empty
  string. A qualified identifier, a pointer, an array or slice, a map and a function type
  render from the renderings of their parts, whatever these are, and a panic of a part
  is the panic of the whole. So, for every identifier \<open>X\<close>, a slice of pointer to \<open>X\<close>
  renders as \<^verbatim>\<open>[]*X\<close>; a pointer to a map from \<^verbatim>\<open>string\<close> to slice of \<^verbatim>\<open>int\<close> renders as
  \<^verbatim>\<open>*map[string][]int\<close>; the identifier \<^verbatim>\<open>SpecialCase\<close> selected from the package
  \<^verbatim>\<open>unicode\<close> renders as \<^verbatim>\<open>unicode.SpecialCase\<close>.
\<close>

theorem formatType_composes:
  "formatType NilExpr = Inr ''''
   \<and> formatType (Ident X) = Inr X
   \<and> formatType (BasicLit lit) = Inr lit
   \<and> formatType (SelectorExpr x sel) =
       (case formatType x of Inl e \<Rightarrow> Inl e | Inr a \<Rightarrow> Inr (a @ ''.'' @ sel))
   \<and> formatType (StarExpr x) =
       (case formatType x of Inl e \<Rightarrow> Inl e | Inr a \<Rightarrow> Inr (''*'' @ a))
   \<and> formatType (ArrayType len elt) =
       (case formatType len of Inl e \<Rightarrow> Inl e
        | Inr a \<Rightarrow>
            (case formatType elt of Inl e \<Rightarrow> Inl e | Inr b \<Rightarrow> Inr (''['' @ a @ '']'' @ b)))
   \<and> formatType (MapType key val) =
       (case formatType key of Inl e \<Rightarrow> Inl e
        | Inr a \<Rightarrow>
            (case formatType val of Inl e \<Rightarrow> Inl e | Inr b \<Rightarrow> Inr (''map['' @ a @ '']'' @ b)))
   \<and> formatType (FuncType params results) =
       (case formatFuncParams params of Inl e \<Rightarrow> Inl e
        | Inr a \<Rightarrow>
            (case formatFuncResults results of Inl e \<Rightarrow> Inl e
             | Inr b \<Rightarrow> Inr (''func('' @ a @ '')'' @ b)))
   \<and> formatType (ArrayType NilExpr (StarExpr (Ident X))) = Inr (''[]*'' @ X)
   \<and> formatType (StarExpr (MapType (Ident ''string'') (ArrayType NilExpr (Ident ''int''))))
       = Inr ''*map[string][]int''
   \<and> formatType (SelectorExpr (Ident ''unicode'') ''SpecialCase'') = Inr ''unicode.SpecialCase''"
  by simp

text \<open>
  C6: a variadic type expression \<^verbatim>\<open>...T\<close> renders exactly as \<open>T\<close> does, the ellipsis is
  dropped; the parameter of \<^verbatim>\<open>f(xs ...int)\<close> renders as \<^verbatim>\<open>xs int\<close>.
\<close>

theorem formatType_Ellipsis:
  "formatType (Ellipsis T) = formatType T
   \<and> formatFuncParams (Some [Field [''xs''] (Ellipsis (Ident ''int''))]) = Inr ''xs int''"
  by simp

text \<open>
  A field list with a field whose type does not render does not render either: the panic
  of \<open>formatType\<close> (or an earlier one) leaves the loop.
\<close>

lemma formatFields_loop_fails:
  "formatType ty = Inl e \<Longrightarrow> \<exists>e'. formatFields_loop (pre @ Field names ty # post) s = Inl e'"
proof (induction pre arbitrary: s)
  case Nil
  then show ?case by simp
next
  case (Cons f pre)
  obtain names' ty' where f: "f = Field names' ty'"
    by (cases f)
  show ?case
  proof (cases "formatType ty'")
    case (Inl e')
    then show ?thesis using f by simp
  next
    case (Inr t)
    then show ?thesis using f Cons.IH [OF Cons.prems] by simp
  qed
qed

text \<open>
  A panic is passed on by every function of the renderer: an expression that holds an
  unsupported type at any depth has no rendering, nor has a field list with such a type.
\<close>

lemma unsupported_panics:
  "hasUnsupported e \<Longrightarrow> \<exists>err. formatType e = Inl err"
  "hasUnsupported_fields fl \<Longrightarrow> \<exists>err. formatFields_loop fl s = Inl err"
  "hasUnsupported_list fs \<Longrightarrow> \<exists>err. formatFields fs = Inl err"
  "hasUnsupported_list params \<Longrightarrow> \<exists>err. formatFuncParams params = Inl err"
  "hasUnsupported_list results \<Longrightarrow> \<exists>err. formatFuncResults results = Inl err"
proof (induction e and fl s and fs and params and results
    rule: formatType_formatFields_loop_formatFields_formatFuncParams_formatFuncResults.induct)
  case (13 names ty rest s)
  then show ?case by (cases "formatType ty") (auto simp: Let_def)
next
  case (18 fl)
  have "\<exists>err. formatFields (Some fl) = Inl err"
    using "18.IH" [OF refl refl refl] "18.prems" by simp
  then show ?case by (auto simp: Let_def)
qed (auto split: sum.splits)

lemma formatFuncDecl_tail_unsupported:
  assumes "hasUnsupported_list (Params (Type d)) \<or> hasUnsupported_list (Results (Type d))"
  shows "\<exists>err. formatFuncDecl_tail d s = Inl err"
  using assms unsupported_panics(4) [of "Params (Type d)"]
    unsupported_panics(5) [of "Results (Type d)"]
  by (auto simp: formatFuncDecl_tail_def split: sum.splits)

lemma formatFuncDecl_unsupported:
  assumes "spec_rendersUnsupported d"
  shows "\<exists>err. formatFuncDecl d = Inl err"
proof (cases "Recv d")
  case None
  with assms have "hasUnsupported_list (Params (Type d)) \<or> hasUnsupported_list (Results (Type d))"
    by (simp add: spec_rendersUnsupported_def)
  then show ?thesis
    using None formatFuncDecl_tail_unsupported [of d "''func ''"]
    by (simp add: formatFuncDecl_def)
next
  case (Some recv)
  with assms have recv: "length recv = 1" "length (Names (recv ! 0)) = 1"
    and un: "hasUnsupported (FieldType (recv ! 0)) \<or> hasUnsupported_list (Params (Type d))
             \<or> hasUnsupported_list (Results (Type d))"
    by (simp_all add: spec_rendersUnsupported_def)
  from recv(2) have names: "Names (recv ! 0) \<noteq> []"
    by auto
  have eq: "formatFuncDecl d =
      (case formatType (FieldType (recv ! 0)) of Inl e \<Rightarrow> Inl e
       | Inr t \<Rightarrow>
           formatFuncDecl_tail d
             (''func '' @ ''('' @ Names (recv ! 0) ! 0 @ '' '' @ t @ '') ''))"
    using Some recv names by (simp add: formatFuncDecl_def Let_def)
  show ?thesis
  proof (cases "formatType (FieldType (recv ! 0))")
    case (Inl e)
    then show ?thesis using eq by simp
  next
    case (Inr t)
    then have "\<not> hasUnsupported (FieldType (recv ! 0))"
      using unsupported_panics(1) [of "FieldType (recv ! 0)"] by auto
    with un have "hasUnsupported_list (Params (Type d)) \<or> hasUnsupported_list (Results (Type d))"
      by simp
    then show ?thesis
      using eq Inr formatFuncDecl_tail_unsupported by simp
  qed
qed

lemma exported_unsupported_receiver:
  assumes "Recv d = Some [Field names ty]" and "hasUnsupported ty"
  shows "\<exists>err. exported IsUpper d = Inl err"
  using assms unsupported_panics(1) [of ty] by (auto simp: exported_def)

text \<open>
  A declaration without receiver whose parameters hold a channel type has no rendering.
\<close>

lemma formatFuncDecl_chan_param:
  assumes "Recv d = None"
    and "Params (Type d) = Some (pre @ Field names (ChanType dir v) # post)"
  shows "\<exists>e. formatFuncDecl d = Inl e"
  using assms formatFields_loop_fails [of "ChanType dir v" UnsupportedChanType pre names post "''''"]
  by (auto simp: formatFuncDecl_def formatFuncDecl_tail_def)

section \<open>Rendering of field lists\<close>

lemma formatFields_names_eq: "formatFields_names names s = s @ spec_field names ''''"
proof (induction names arbitrary: s)
  case Nil
  then show ?case by (simp add: spec_field_def)
next
  case (Cons name rest)
  show ?case
  proof (cases rest)
    case Nil
    then show ?thesis by (simp add: spec_field_def)
  next
    case (Cons name' rest')
    then show ?thesis
      using Cons.IH [of "s @ name @ '', ''"] by (simp add: spec_field_def)
  qed
qed

lemma spec_field_append: "spec_field names (t @ u) = spec_field names t @ u"
  by (simp add: spec_field_def)

lemma formatFields_names_type: "formatFields_names names s @ t = s @ spec_field names t"
  by (simp add: formatFields_names_eq spec_field_def)

lemma formatFields_loop_eq:
  "map (\<lambda>f. formatType (FieldType f)) fl = map Inr ts \<Longrightarrow>
   formatFields_loop fl s = Inr (s @ spec_fields (zip (map Names fl) ts))"
proof (induction fl arbitrary: s ts)
  case Nil
  then show ?case by (simp add: spec_fields_def)
next
  case (Cons f rest)
  obtain names ty where f: "f = Field names ty"
    by (cases f)
  from Cons.prems obtain t ts' where ts: "ts = t # ts'"
    and t: "formatType ty = Inr t"
    and rest: "map (\<lambda>f. formatType (FieldType f)) rest = map Inr ts'"
    using f by (cases ts) auto
  show ?case
  proof (cases rest)
    case Nil
    with rest have "ts' = []" by simp
    then show ?thesis
      using f t ts Nil
      by (simp add: formatFields_names_type spec_field_append spec_fields_def)
  next
    case (Cons f' rest')
    with rest obtain t' ts'' where ts': "ts' = t' # ts''"
      by (cases ts') auto
    have "formatFields_loop rest (s @ spec_field names t @ '', '')
            = Inr ((s @ spec_field names t @ '', '') @ spec_fields (zip (map Names rest) ts'))"
      using Cons.IH [OF rest] by simp
    then show ?thesis
      using f t ts Cons ts'
      by (simp add: formatFields_names_type spec_field_append spec_fields_def)
  qed
qed

text \<open>
  C4: when the types of the fields render, as the strings \<open>ts\<close>, \<open>formatFields\<close> returns
  the fields in their order, joined by a comma and a space; each field is its names
  joined by a comma and a space, without a comma after the last, then a space and the
  field's type, once (a field without names is its type alone).
\<close>

theorem formatFields_spec:
  "map (\<lambda>f. formatType (FieldType f)) fl = map Inr ts \<Longrightarrow>
   formatFields (Some fl) = Inr (spec_fields (zip (map Names fl) ts))"
  using formatFields_loop_eq [of fl ts "''''"] by simp

text \<open>
  The parameter list \<^verbatim>\<open>(a, b string)\<close> renders as \<^verbatim>\<open>a, b string\<close>; the parameters of
  \<^verbatim>\<open>Join\<close> and a result list without names.
\<close>

theorem formatFields_spec_witness:
  "formatFields (Some [Field [''a'', ''b''] (Ident ''string'')]) = Inr ''a, b string''
   \<and> formatFields (Some [Field [''a''] (ArrayType NilExpr (Ident ''string'')),
                          Field [''sep''] (Ident ''string'')]) = Inr ''a []string, sep string''
   \<and> formatFields (Some [Field [] (Ident ''int''), Field [] (Ident ''error'')])
       = Inr ''int, error''"
  using formatFields_spec [of "[Field [''a'', ''b''] (Ident ''string'')]" "[''string'']"]
    formatFields_spec [of "[Field [''a''] (ArrayType NilExpr (Ident ''string'')),
                            Field [''sep''] (Ident ''string'')]" "[''[]string'', ''string'']"]
    formatFields_spec [of "[Field [] (Ident ''int''), Field [] (Ident ''error'')]"
      "[''int'', ''error'']"]
  by (simp add: spec_fields_def spec_field_def)

text \<open>
  C5: the result suffix is empty when the declaration has no result list. Otherwise it
  is one space and then the rendered fields, in parentheses exactly when the list has
  more than one field; it exists when the fields render.
\<close>

theorem formatFuncResults_suffix:
  "formatFuncResults None = Inr ''''
   \<and> formatFuncResults (Some fl) =
       (case formatFields (Some fl) of
          Inl e \<Rightarrow> Inl e
        | Inr body \<Rightarrow>
            Inr ('' '' @ (if 1 < length fl then ''('' @ body @ '')'' else body)))"
  by (simp split: sum.split)

text \<open>
  C10: a result list of one field with two or more names has no parentheses around it:
  the suffix is a space, the names joined by a comma and a space, a space and the type.
\<close>

theorem formatFuncResults_one_field:
  assumes "2 \<le> length names" and "formatType ty = Inr t"
  shows "formatFuncResults (Some [Field names ty])
           = Inr ('' '' @ spec_join '', '' names @ '' '' @ t)"
proof -
  have "names \<noteq> []" using assms(1) by auto
  then show ?thesis
    using assms(2) by (simp add: formatFields_names_type spec_field_def)
qed

text \<open>\<^verbatim>\<open>func F() (n, m int)\<close> renders as \<^verbatim>\<open>func F() n, m int\<close>.\<close>

theorem formatFuncResults_one_field_witness:
  "formatFuncResults (Some [Field [''n'', ''m''] (Ident ''int'')]) = Inr '' n, m int''
   \<and> formatFuncDecl ex_F = Inr ''func F() n, m int''"
  using formatFuncResults_one_field [of "[''n'', ''m'']" "Ident ''int''" "''int''"]
  by (simp add: eval_formatFuncDecl ex_F_def)

section \<open>Exported declarations\<close>

text \<open>
  \<open>isUpper0\<close> on a string that does not start with the pointer marker, on one that
  does, and in the words of the specification.
\<close>

lemma isUpper0_plain:
  assumes "s \<noteq> []" and "\<not> HasPrefix s ''*''"
  shows "isUpper0 IsUpper s = Inr (spec_firstUpper IsUpper s)"
proof -
  obtain c rest where s: "s = c # rest"
    using assms(1) by (cases s) auto
  obtain r rs where r: "runes s = r # rs"
    using runes_Cons [of c rest] s by auto
  show ?thesis
    using assms(2) r by (simp add: isUpper0_def index_def spec_firstUpper_def)
qed

lemma isUpper0_star:
  assumes "rest \<noteq> []"
  shows "isUpper0 IsUpper (CHR ''*'' # rest) = Inr (spec_firstUpper IsUpper rest)"
proof -
  obtain c rest' where s: "rest = c # rest'"
    using assms by (cases rest) auto
  obtain r rs where r: "runes rest = r # rs"
    using runes_Cons [of c rest'] s by auto
  show ?thesis
    using r by (simp add: isUpper0_def index_def spec_firstUpper_def HasPrefix_star runes_star)
qed

lemma isUpper0_stripStar:
  assumes "spec_stripStar s \<noteq> []"
  shows "isUpper0 IsUpper s = Inr (spec_firstUpper IsUpper (spec_stripStar s))"
proof (cases "HasPrefix s ''*''")
  case True
  then obtain rest where s: "s = CHR ''*'' # rest"
    by (auto simp: HasPrefix_star)
  with assms have "rest \<noteq> []"
    by (simp add: spec_stripStar_def)
  then show ?thesis
    using s by (simp add: isUpper0_star spec_stripStar_def)
next
  case False
  then have eq: "spec_stripStar s = s"
    by (cases s) (auto simp: spec_stripStar_def HasPrefix_star)
  with assms have "s \<noteq> []" by simp
  then show ?thesis
    using False eq by (simp add: isUpper0_plain)
qed

text \<open>
  Where nothing is left after the pointer marker, \<^verbatim>\<open>[]rune(s)[i]\<close> is out of range.
\<close>

lemma isUpper0_empty:
  assumes "spec_stripStar s = []"
  shows "isUpper0 IsUpper s = Inl IndexOutOfRange"
proof (cases s)
  case Nil
  then show ?thesis
    by (simp add: isUpper0_def HasPrefix_def index_def runes_Nil)
next
  case (Cons c rest)
  with assms have "c = CHR ''*''" and "rest = []"
    by (auto simp: spec_stripStar_def split: if_splits)
  with Cons show ?thesis
    by (simp add: isUpper0_def HasPrefix_def index_def runes_star runes_Nil)
qed

lemma spec_firstUpper_Nil: "\<not> spec_firstUpper IsUpper []"
  by (simp add: spec_firstUpper_def runes_Nil)

text \<open>\<open>isUpper0\<close> returns true exactly when the first rune after the marker is upper case.\<close>

lemma isUpper0_True_iff:
  "isUpper0 IsUpper s = Inr True \<longleftrightarrow> spec_firstUpper IsUpper (spec_stripStar s)"
proof (cases "spec_stripStar s = []")
  case True
  then show ?thesis
    by (simp add: isUpper0_empty spec_firstUpper_Nil)
next
  case False
  then show ?thesis
    by (simp add: isUpper0_stripStar)
qed

lemma spec_stripStar_plain: "\<not> HasPrefix s ''*'' \<Longrightarrow> spec_stripStar s = s"
  by (cases s) (auto simp: spec_stripStar_def HasPrefix_star)

lemma isUpper0_cases:
  "isUpper0 IsUpper s = Inl IndexOutOfRange \<or> (\<exists>b. isUpper0 IsUpper s = Inr b)"
  by (cases "spec_stripStar s = []") (simp_all add: isUpper0_empty isUpper0_stripStar)

text \<open>
  The value of \<open>exported\<close> on a declaration whose name is not empty and whose receiver
  type, if any, renders to a text that is not the marker alone: it returns, and what.
\<close>

lemma exported_value:
  assumes "Name d \<noteq> []" and "\<not> HasPrefix (Name d) ''*''"
  shows "(Recv d = None \<longrightarrow> exported IsUpper d = Inr (spec_firstUpper IsUpper (Name d)))
    \<and> (\<forall>names ty t.
          Recv d = Some [Field names ty] \<and> formatType ty = Inr t \<and> spec_stripStar t \<noteq> []
          \<longrightarrow> exported IsUpper d =
                Inr (spec_firstUpper IsUpper (spec_stripStar t)
                     \<and> spec_firstUpper IsUpper (Name d)))"
  using assms by (auto simp: exported_def isUpper0_plain isUpper0_stripStar)

text \<open>
  C2: for a declaration whose name does not start with the pointer marker (no identifier
  does). Without receiver, \<open>exported\<close> returns true exactly when the first rune of the
  name is upper case. With a receiver of one field, it returns true exactly when the
  first rune of the rendered receiver type, one leading marker stripped, and the first
  rune of the name are both upper case.
\<close>

theorem exported_iff:
  assumes "\<not> HasPrefix (Name d) ''*''"
  shows "(Recv d = None \<longrightarrow>
            (exported IsUpper d = Inr True \<longleftrightarrow> spec_firstUpper IsUpper (Name d)))
    \<and> (\<forall>names ty.
          Recv d = Some [Field names ty] \<longrightarrow>
            (exported IsUpper d = Inr True \<longleftrightarrow>
               (\<exists>t. formatType ty = Inr t \<and> spec_firstUpper IsUpper (spec_stripStar t))
               \<and> spec_firstUpper IsUpper (Name d)))"
proof (intro conjI impI allI)
  assume "Recv d = None"
  then show "exported IsUpper d = Inr True \<longleftrightarrow> spec_firstUpper IsUpper (Name d)"
    using assms by (simp add: exported_def isUpper0_True_iff spec_stripStar_plain)
next
  fix names ty
  assume recv: "Recv d = Some [Field names ty]"
  have name: "isUpper0 IsUpper (Name d) = Inr True \<longleftrightarrow> spec_firstUpper IsUpper (Name d)"
    using assms by (simp add: isUpper0_True_iff spec_stripStar_plain)
  show "exported IsUpper d = Inr True \<longleftrightarrow>
          (\<exists>t. formatType ty = Inr t \<and> spec_firstUpper IsUpper (spec_stripStar t))
          \<and> spec_firstUpper IsUpper (Name d)"
  proof (cases "formatType ty")
    case (Inl e)
    then show ?thesis using recv by (simp add: exported_def)
  next
    case (Inr t)
    show ?thesis
    proof (cases "isUpper0 IsUpper t")
      case (Inl e)
      then have "\<not> spec_firstUpper IsUpper (spec_stripStar t)"
        using isUpper0_True_iff [of IsUpper t] by simp
      then show ?thesis using recv Inr Inl by (simp add: exported_def)
    next
      case b: (Inr b)
      then have "b \<longleftrightarrow> spec_firstUpper IsUpper (spec_stripStar t)"
        using isUpper0_True_iff [of IsUpper t] by auto
      then show ?thesis using recv Inr b name by (simp add: exported_def)
    qed
  qed
qed

text \<open>
  Receiver \<^verbatim>\<open>*myType\<close>, method \<^verbatim>\<open>Foo\<close>: not exported. Receiver \<^verbatim>\<open>*MyType\<close>, method
  \<^verbatim>\<open>foo\<close>: not exported. Receiver \<^verbatim>\<open>MyType\<close>, method \<^verbatim>\<open>Foo\<close>: exported. \<^verbatim>\<open>Join\<close> is
  exported, \<^verbatim>\<open>split\<close> is not, and a function whose name starts with the two bytes of
  \<^verbatim>\<open>U+00C9\<close> is.
\<close>

theorem exported_iff_witness:
  "exported IsUpperLatin1 (ex_method (StarExpr (Ident ''myType'')) ''Foo'') \<noteq> Inr True
   \<and> exported IsUpperLatin1 (ex_method (StarExpr (Ident ''MyType'')) ''foo'') \<noteq> Inr True
   \<and> exported IsUpperLatin1 (ex_method (Ident ''MyType'') ''Foo'') = Inr True
   \<and> exported IsUpperLatin1 ex_Join = Inr True
   \<and> exported IsUpperLatin1 ex_split \<noteq> Inr True
   \<and> exported IsUpperLatin1
       \<lparr>Recv = None, Name = [CHR 0xC3, CHR 0x89, CHR ''t'', CHR ''e''],
        Type = \<lparr>Params = Some [], Results = None\<rparr>\<rparr> = Inr True"
  using
    exported_iff [of "ex_method (StarExpr (Ident ''myType'')) ''Foo''" IsUpperLatin1]
    exported_iff [of "ex_method (StarExpr (Ident ''MyType'')) ''foo''" IsUpperLatin1]
    exported_iff [of "ex_method (Ident ''MyType'') ''Foo''" IsUpperLatin1]
    exported_iff [of ex_Join IsUpperLatin1]
    exported_iff [of ex_split IsUpperLatin1]
    exported_iff [of "\<lparr>Recv = None, Name = [CHR 0xC3, CHR 0x89, CHR ''t'', CHR ''e''],
        Type = \<lparr>Params = Some [], Results = None\<rparr>\<rparr>" IsUpperLatin1]
  by (simp add: ex_defs HasPrefix_def spec_stripStar_def spec_firstUpper_def runes_ascii
      runes_two runes_Nil cont_def IsUpperLatin1_def)

section \<open>Order and panics of the listing\<close>

text \<open>
  The run ends in a panic when the file holds a function declaration on which
  \<open>exported\<close> panics or, in verbose mode, an exported one on which \<open>formatFuncDecl\<close>
  panics: no later declaration is skipped over it.
\<close>

lemma printFuncsInFile_loop_aborts:
  assumes "FuncDeclNode d \<in> set ds"
    and "exported IsUpper d = Inl e
         \<or> (verbose \<and> exported IsUpper d = Inr True \<and> formatFuncDecl d = Inl e)"
  shows "\<exists>out' e'. printFuncsInFile_loop IsUpper ds verbose out = (out', Some e')"
  using assms(1)
proof (induction ds arbitrary: out)
  case Nil
  then show ?case by simp
next
  case (Cons x ds)
  show ?case
  proof (cases "x = FuncDeclNode d")
    case True
    then show ?thesis using assms(2) by auto
  next
    case False
    with Cons.prems have "FuncDeclNode d \<in> set ds" by simp
    then have IH: "\<And>out. \<exists>out' e'. printFuncsInFile_loop IsUpper ds verbose out = (out', Some e')"
      using Cons.IH by blast
    show ?thesis
    proof (cases x)
      case (FuncDeclNode d')
      then show ?thesis
        using IH by (auto split: sum.split)
    next
      case GenDecl
      then show ?thesis using IH by simp
    next
      case BadDecl
      then show ?thesis using IH by simp
    qed
  qed
qed

text \<open>
  C8: on a declaration whose receiver list is present and has not exactly one field,
  \<open>exported\<close> and \<open>formatFuncDecl\<close> both panic, and the listing of every file that
  holds the declaration ends in a panic, in both modes.
\<close>

theorem strange_receiver_aborts:
  assumes "Recv d = Some recv" and "length recv \<noteq> 1"
  shows "exported IsUpper d = Inl (StrangeReceiver (Name d))
    \<and> formatFuncDecl d = Inl (StrangeReceiver (Name d))
    \<and> (\<forall>file verbose out. FuncDeclNode d \<in> set (Decls file) \<longrightarrow>
          (\<exists>out' e. printFuncsInFile IsUpper file verbose out = (out', Some e)))"
proof -
  have ex: "exported IsUpper d = Inl (StrangeReceiver (Name d))"
    using assms by (simp add: exported_def)
  have fmt: "formatFuncDecl d = Inl (StrangeReceiver (Name d))"
    using assms by (simp add: formatFuncDecl_def)
  have "\<exists>out' e. printFuncsInFile IsUpper fl verbose out = (out', Some e)"
    if "FuncDeclNode d \<in> set (Decls fl)" for fl verbose out
    using printFuncsInFile_loop_aborts [OF that, of IsUpper _ verbose out] ex
    by (simp add: printFuncsInFile_def)
  with ex fmt show ?thesis by blast
qed

text \<open>
  A method with two receiver fields, and one whose receiver list is empty; the listing
  stops at the first, after the line of \<^verbatim>\<open>Join\<close>.
\<close>

theorem strange_receiver_aborts_witness:
  "exported IsUpperLatin1 ex_M = Inl (StrangeReceiver ''M'')
   \<and> formatFuncDecl ex_M = Inl (StrangeReceiver ''M'')
   \<and> formatFuncDecl (ex_M\<lparr>Recv := Some []\<rparr>) = Inl (StrangeReceiver ''M'')
   \<and> printFuncsInFile IsUpperLatin1
       \<lparr>Decls = [FuncDeclNode ex_Join, FuncDeclNode ex_M, FuncDeclNode ex_Join]\<rparr> False []
       = ([''Join''], Some (StrangeReceiver ''M''))"
  using
    strange_receiver_aborts [of ex_M "[Field [''a''] (Ident ''T''), Field [''b''] (Ident ''T'')]"
      IsUpperLatin1]
    strange_receiver_aborts [of "ex_M\<lparr>Recv := Some []\<rparr>" "[]" IsUpperLatin1]
  by (simp add: ex_defs printFuncsInFile_def eval_exported)

text \<open>
  The listing returns exactly when \<open>exported\<close> returns on every function declaration
  and, in verbose mode, every exported one renders; the lines it has added are then those
  of the exported declarations, in the order of the file.
\<close>

lemma printFuncsInFile_loop_returns_iff:
  "printFuncsInFile_loop IsUpper ds verbose acc = (out, None) \<longleftrightarrow>
     (\<forall>d \<in> set (funcDecls ds). \<exists>b. exported IsUpper d = Inr b)
     \<and> (\<exists>new. out = acc @ new
            \<and> spec_lines verbose (filter (\<lambda>d. exported IsUpper d = Inr True) (funcDecls ds)) new)"
proof (induction ds arbitrary: acc)
  case Nil
  then show ?case by (auto simp: spec_lines_def)
next
  case (Cons x ds)
  show ?case
  proof (cases x)
    case (FuncDeclNode d)
    show ?thesis
    proof (cases "exported IsUpper d")
      case (Inl e)
      then show ?thesis using FuncDeclNode by auto
    next
      case (Inr b)
      show ?thesis
      proof (cases b)
        case False
        then show ?thesis using FuncDeclNode Inr Cons.IH by auto
      next
        case True
        show ?thesis
        proof (cases verbose)
          case False
          then show ?thesis
            using FuncDeclNode Inr True Cons.IH [of "acc @ [Name d]"]
            by (auto simp: spec_lines_def)
        next
          case verbose: True
          show ?thesis
          proof (cases "formatFuncDecl d")
            case (Inl e)
            then show ?thesis
              using FuncDeclNode Inr True verbose by (auto simp: spec_lines_def)
          next
            case line: (Inr line)
            then show ?thesis
              using FuncDeclNode Inr True verbose Cons.IH [of "acc @ [line]"]
              by (auto simp: spec_lines_def Cons_eq_map_conv)
          qed
        qed
      qed
    qed
  next
    case GenDecl
    then show ?thesis using Cons.IH by simp
  next
    case BadDecl
    then show ?thesis using Cons.IH by simp
  qed
qed

lemma all_render_lines:
  "\<forall>d \<in> set ds. \<exists>line. f d = Inr line \<Longrightarrow> \<exists>out. map f ds = map Inr out"
proof (induction ds)
  case Nil
  then show ?case by simp
next
  case (Cons d ds)
  then obtain line out where "f d = Inr line" and "map f ds = map Inr out"
    by auto
  then have "map f (d # ds) = map Inr (line # out)"
    by simp
  then show ?case by blast
qed

text \<open>
  C9: the listing of a file returns with the output \<open>out\<close> exactly when \<open>exported\<close>
  returns on every function declaration of the file and \<open>out\<close> is one line for each
  exported function declaration and nothing else, in the order of the declaration list,
  a declaration that stands twice giving two lines: the rendered signatures in verbose
  mode (the empty string where \<open>formatFuncDecl\<close> returns it), the bare names (for a
  method too) otherwise. So the listing does return, with these lines, on every file on
  whose function declarations \<open>exported\<close> returns and, in verbose mode, whose exported
  declarations render.
\<close>

theorem printFuncsInFile_order:
  "(printFuncsInFile IsUpper file verbose [] = (out, None) \<longleftrightarrow>
      (\<forall>d \<in> set (funcDecls (Decls file)). \<exists>b. exported IsUpper d = Inr b)
      \<and> (if verbose then map formatFuncDecl (spec_exportedDecls IsUpper file) = map Inr out
          else out = map Name (spec_exportedDecls IsUpper file)))
   \<and> ((\<forall>d \<in> set (funcDecls (Decls file)). \<exists>b. exported IsUpper d = Inr b)
       \<and> (verbose \<longrightarrow>
            (\<forall>d \<in> set (spec_exportedDecls IsUpper file). \<exists>line. formatFuncDecl d = Inr line))
       \<longrightarrow> (\<exists>out'. printFuncsInFile IsUpper file verbose [] = (out', None)
                  \<and> (if verbose
                      then map formatFuncDecl (spec_exportedDecls IsUpper file) = map Inr out'
                      else out' = map Name (spec_exportedDecls IsUpper file))))"
proof (intro conjI impI)
  show iff: "printFuncsInFile IsUpper file verbose [] = (out, None) \<longleftrightarrow>
      (\<forall>d \<in> set (funcDecls (Decls file)). \<exists>b. exported IsUpper d = Inr b)
      \<and> (if verbose then map formatFuncDecl (spec_exportedDecls IsUpper file) = map Inr out
          else out = map Name (spec_exportedDecls IsUpper file))" for out
    using printFuncsInFile_loop_returns_iff [of IsUpper "Decls file" verbose "[]" out]
    by (simp add: printFuncsInFile_def spec_exportedDecls_def spec_lines_def)
  assume returns: "(\<forall>d \<in> set (funcDecls (Decls file)). \<exists>b. exported IsUpper d = Inr b)
       \<and> (verbose \<longrightarrow>
            (\<forall>d \<in> set (spec_exportedDecls IsUpper file). \<exists>line. formatFuncDecl d = Inr line))"
  have "\<exists>out'. if verbose
          then map formatFuncDecl (spec_exportedDecls IsUpper file) = map Inr out'
          else out' = map Name (spec_exportedDecls IsUpper file)"
  proof (cases verbose)
    case False
    then show ?thesis by simp
  next
    case True
    with returns
    have "\<forall>d \<in> set (spec_exportedDecls IsUpper file). \<exists>line. formatFuncDecl d = Inr line"
      by simp
    then have "\<exists>out'. map formatFuncDecl (spec_exportedDecls IsUpper file) = map Inr out'"
      by (rule all_render_lines)
    then show ?thesis using True by simp
  qed
  then obtain out' where "if verbose
          then map formatFuncDecl (spec_exportedDecls IsUpper file) = map Inr out'
          else out' = map Name (spec_exportedDecls IsUpper file)"
    by blast
  with returns iff [of out']
  show "\<exists>out'. printFuncsInFile IsUpper file verbose [] = (out', None)
                  \<and> (if verbose
                      then map formatFuncDecl (spec_exportedDecls IsUpper file) = map Inr out'
                      else out' = map Name (spec_exportedDecls IsUpper file))"
    by blast
qed

text \<open>
  The file of \<^verbatim>\<open>Join\<close>, a declaration that is no function, \<^verbatim>\<open>split\<close>, the method
  \<^verbatim>\<open>Read\<close> and \<^verbatim>\<open>Join\<close> again, in both modes.
\<close>

theorem printFuncsInFile_order_witness:
  "printFuncsInFile IsUpperLatin1 ex_file False [] = ([''Join'', ''Read'', ''Join''], None)
   \<and> map Name (spec_exportedDecls IsUpperLatin1 ex_file) = [''Join'', ''Read'', ''Join'']
   \<and> printFuncsInFile IsUpperLatin1 ex_file True [] =
       ([''func Join(a []string, sep string) string'',
         ''func (r *Reader) Read(p []byte) (n int, err error)'',
         ''func Join(a []string, sep string) string''], None)
   \<and> spec_exportedDecls IsUpperLatin1 ex_file = [ex_Join, ex_Read, ex_Join]"
proof -
  have decls: "spec_exportedDecls IsUpperLatin1 ex_file = [ex_Join, ex_Read, ex_Join]"
    by (simp add: spec_exportedDecls_def ex_file_def ex_defs eval_exported)
  have returns: "\<forall>d \<in> set (funcDecls (Decls ex_file)). \<exists>b. exported IsUpperLatin1 d = Inr b"
    by (auto simp: ex_file_def ex_defs eval_exported)
  have names: "printFuncsInFile IsUpperLatin1 ex_file False []
      = ([''Join'', ''Read'', ''Join''], None)"
    using printFuncsInFile_order [of IsUpperLatin1 ex_file False "[''Join'', ''Read'', ''Join'']"]
      returns decls
    by (simp add: ex_defs)
  have lines: "printFuncsInFile IsUpperLatin1 ex_file True [] =
       ([''func Join(a []string, sep string) string'',
         ''func (r *Reader) Read(p []byte) (n int, err error)'',
         ''func Join(a []string, sep string) string''], None)"
    using printFuncsInFile_order [of IsUpperLatin1 ex_file True
        "[''func Join(a []string, sep string) string'',
          ''func (r *Reader) Read(p []byte) (n int, err error)'',
          ''func Join(a []string, sep string) string'']"]
      returns decls
    by (simp add: ex_defs eval_formatFuncDecl)
  show ?thesis
    using names lines decls by (simp add: ex_defs)
qed

text \<open>
  The listing of a declaration list in two parts: the second part is listed after the
  output of the first, unless the first ends in a panic.
\<close>

lemma printFuncsInFile_loop_append:
  "printFuncsInFile_loop IsUpper (pre @ rest) verbose acc =
     (case printFuncsInFile_loop IsUpper pre verbose acc of
        (out, None) \<Rightarrow> printFuncsInFile_loop IsUpper rest verbose out
      | (out, Some e) \<Rightarrow> (out, Some e))"
proof (induction pre arbitrary: acc verbose)
  case Nil
  then show ?case by simp
next
  case (Cons x pre)
  show ?case
  proof (cases x)
    case (FuncDeclNode d)
    then show ?thesis
      by (simp add: Cons.IH split: sum.split)
  next
    case GenDecl
    then show ?thesis by (simp add: Cons.IH)
  next
    case BadDecl
    then show ?thesis by (simp add: Cons.IH)
  qed
qed

text \<open>
  C7: on a channel type, and on every node that is none of the supported shapes,
  \<open>formatType\<close> panics: it returns no string. So it does on every type expression that
  holds such a type at any depth, and so do the parameter list, the result list and the
  declaration whose rendering comes to such a type. The verbose listing of a file ends in
  a panic at an exported declaration of that kind: its output is the lines of the
  declarations before it, with no line for the declaration and none after it. A method
  whose receiver type is of that kind ends the listing in both modes, since \<open>exported\<close>
  renders the receiver type.
\<close>

theorem formatType_unsupported:
  "formatType (ChanType dir v) = Inl UnsupportedChanType
   \<and> formatType (OtherExpr k) = Inl UnsupportedType
   \<and> (hasUnsupported e \<longrightarrow> (\<exists>err. formatType e = Inl err))
   \<and> (hasUnsupported_list fl \<longrightarrow>
        (\<exists>err. formatFuncParams fl = Inl err) \<and> (\<exists>err. formatFuncResults fl = Inl err))
   \<and> (spec_rendersUnsupported d \<longrightarrow> (\<exists>err. formatFuncDecl d = Inl err))
   \<and> (spec_rendersUnsupported d \<and> exported IsUpper d = Inr True
        \<and> printFuncsInFile IsUpper \<lparr>Decls = pre\<rparr> True out = (out1, None) \<longrightarrow>
        (\<exists>err. printFuncsInFile IsUpper \<lparr>Decls = pre @ FuncDeclNode d # post\<rparr> True out
                 = (out1, Some err)))
   \<and> (spec_rendersUnsupported d \<and> exported IsUpper d = Inr True
        \<and> FuncDeclNode d \<in> set (Decls file) \<longrightarrow>
        (\<exists>out' err. printFuncsInFile IsUpper file True out = (out', Some err)))
   \<and> ((\<exists>names ty. Recv d = Some [Field names ty] \<and> hasUnsupported ty)
        \<and> FuncDeclNode d \<in> set (Decls file) \<longrightarrow>
        (\<exists>out' err. printFuncsInFile IsUpper file verbose out = (out', Some err)))"
proof (intro conjI impI)
  show "formatType (ChanType dir v) = Inl UnsupportedChanType"
    by simp
  show "formatType (OtherExpr k) = Inl UnsupportedType"
    by simp
  show "\<exists>err. formatType e = Inl err" if "hasUnsupported e"
    using that by (rule unsupported_panics(1))
  show "\<exists>err. formatFuncParams fl = Inl err" if "hasUnsupported_list fl"
    using that by (rule unsupported_panics(4))
  show "\<exists>err. formatFuncResults fl = Inl err" if "hasUnsupported_list fl"
    using that by (rule unsupported_panics(5))
  show "\<exists>err. formatFuncDecl d = Inl err" if "spec_rendersUnsupported d"
    using that by (rule formatFuncDecl_unsupported)
  show "\<exists>err. printFuncsInFile IsUpper \<lparr>Decls = pre @ FuncDeclNode d # post\<rparr> True out
                 = (out1, Some err)"
    if "spec_rendersUnsupported d \<and> exported IsUpper d = Inr True
        \<and> printFuncsInFile IsUpper \<lparr>Decls = pre\<rparr> True out = (out1, None)"
  proof -
    from that have "spec_rendersUnsupported d" by simp
    then obtain err where "formatFuncDecl d = Inl err"
      using formatFuncDecl_unsupported by blast
    then show ?thesis
      using that by (simp add: printFuncsInFile_def printFuncsInFile_loop_append)
  qed
  show "\<exists>out' err. printFuncsInFile IsUpper file True out = (out', Some err)"
    if "spec_rendersUnsupported d \<and> exported IsUpper d = Inr True
        \<and> FuncDeclNode d \<in> set (Decls file)"
  proof -
    from that have "spec_rendersUnsupported d" by simp
    then obtain err where "formatFuncDecl d = Inl err"
      using formatFuncDecl_unsupported by blast
    then show ?thesis
      using that printFuncsInFile_loop_aborts [of d "Decls file" IsUpper err True out]
      by (simp add: printFuncsInFile_def)
  qed
  show "\<exists>out' err. printFuncsInFile IsUpper file verbose out = (out', Some err)"
    if "(\<exists>names ty. Recv d = Some [Field names ty] \<and> hasUnsupported ty)
        \<and> FuncDeclNode d \<in> set (Decls file)"
  proof -
    from that obtain names ty where "Recv d = Some [Field names ty]" and "hasUnsupported ty"
      by blast
    then obtain err where "exported IsUpper d = Inl err"
      using exported_unsupported_receiver by blast
    then show ?thesis
      using that printFuncsInFile_loop_aborts [of d "Decls file" IsUpper err verbose out]
      by (simp add: printFuncsInFile_def)
  qed
qed

text \<open>
  A slice of channels, a map to channels, a pointer to a struct type and a function type
  with a channel parameter; \<^verbatim>\<open>Send\<close>, whose verbose listing stops after the line of
  \<^verbatim>\<open>Join\<close>; a method on an instantiated generic type, which stops the listing of names.
\<close>

theorem formatType_unsupported_witness:
  "formatType (ArrayType NilExpr (ChanType SEND_RECV (Ident ''int''))) = Inl UnsupportedChanType
   \<and> formatType (MapType (Ident ''string'') (ChanType RECV (Ident ''int'')))
       = Inl UnsupportedChanType
   \<and> formatType (StarExpr (OtherExpr StructType)) = Inl UnsupportedType
   \<and> formatType (FuncType (Some [Field [] (ChanType SEND (Ident ''T''))]) None)
       = Inl UnsupportedChanType
   \<and> formatFuncParams (Params (Type ex_Send)) = Inl UnsupportedChanType
   \<and> formatFuncDecl ex_Send = Inl UnsupportedChanType
   \<and> printFuncsInFile IsUpperLatin1
       \<lparr>Decls = [FuncDeclNode ex_Join] @ FuncDeclNode ex_Send # [FuncDeclNode ex_Join]\<rparr> True []
       = ([''func Join(a []string, sep string) string''], Some UnsupportedChanType)
   \<and> printFuncsInFile IsUpperLatin1
       \<lparr>Decls = [FuncDeclNode (ex_method (OtherExpr IndexExpr) ''Len'')]\<rparr> False []
       = ([], Some UnsupportedType)"
  using
    formatType_unsupported [of SEND_RECV "Ident ''int''" StructType
      "ArrayType NilExpr (ChanType SEND_RECV (Ident ''int''))" "Params (Type ex_Send)" ex_Send
      IsUpperLatin1 "[FuncDeclNode ex_Join]" "[]" "[''func Join(a []string, sep string) string'']"
      "[FuncDeclNode ex_Join]"
      "\<lparr>Decls = [FuncDeclNode ex_Join, FuncDeclNode ex_Send, FuncDeclNode ex_Join]\<rparr>" False]
  by (simp add: ex_defs ex_Send_def spec_rendersUnsupported_def printFuncsInFile_def
      eval_exported eval_formatFuncDecl)

text \<open>
  A declaration whose one receiver field has no name renders as the empty string; when
  it is exported, the verbose listing writes that string as a line.
\<close>

lemma formatFuncDecl_unnamed_receiver:
  "Recv d = Some [Field [] ty] \<Longrightarrow> formatFuncDecl d = Inr ''''"
  by (simp add: formatFuncDecl_def)

lemma printFuncsInFile_unnamed_receiver:
  assumes "Recv d = Some [Field [] ty]" and "exported IsUpper d = Inr True"
  shows "printFuncsInFile IsUpper \<lparr>Decls = [FuncDeclNode d]\<rparr> True out = (out @ [''''], None)"
  using assms by (simp add: printFuncsInFile_def formatFuncDecl_unnamed_receiver)

text \<open>
  C1: the method \<^verbatim>\<open>func (T) Foo()\<close>, whose receiver has no name, renders as the empty
  string, and \<open>exported\<close> returns true on it. The verbose listing of the file that
  holds it alone writes one line, the empty one, where the specification has none written.
\<close>

theorem unnamed_receiver_empty_line:
  "formatFuncDecl ex_Foo = Inr ''''
   \<and> exported IsUpperLatin1 ex_Foo = Inr True
   \<and> printFuncsInFile IsUpperLatin1 \<lparr>Decls = [FuncDeclNode ex_Foo]\<rparr> True [] = ([''''], None)"
  by (simp add: ex_defs printFuncsInFile_def eval_exported formatFuncDecl_def)

end
